theory Spec2Isabelle
  imports Complex_Main
begin

section \<open>Data model (senior\_care/models.py)\<close>

text \<open>
  Rows are records holding the columns the operations below read or write; a table is
  the list of its rows, a queryset a list of rows. Primary keys and foreign keys are
  natural numbers, a nullable foreign key is an option. \<open>user_type\<close> and the
  \<open>status\<close> columns are the strings the source compares them with. A timestamp
  is a count of microseconds (the resolution of Python's datetime), and so is a duration.
\<close>

type_synonym pk = nat
type_synonym datetime = int
type_synonym timedelta = int

record user =
  user_id :: pk
  username :: string
  email :: string
  password_hash :: string
  first_name :: string
  last_name :: string
  user_type :: string
  phone_number :: string

record appointment =
  appointment_id :: pk
  appointment_senior :: pk
  appointment_caretaker :: "pk option"
  appointment_status :: string

record medication =
  medication_id :: pk
  medication_senior :: pk
  medication_name :: string
  medication_is_active :: bool

record health_record =
  health_record_id :: pk
  health_record_senior :: pk
  recorded_by :: "pk option"

record volunteer_task =
  task_id :: pk
  task_senior :: pk
  task_volunteer :: pk
  task_ngo :: pk
  task_status :: string
  actual_start_time :: "datetime option"
  actual_end_time :: "datetime option"
  completion_notes :: string
  hours_logged :: rat

section \<open>The API's results\<close>

text \<open>
  A view either returns \<open>Response(body, status)\<close> (status 200 when none is given) or
  raises; what it raises is the left injection of the result.
\<close>

datatype json = JNull | JBool bool | JNum int | JStr string | JObj "(string \<times> json) list"

datatype response = Response json nat

datatype api_error = Http404 | ValidationError "(string \<times> string) list"

type_synonym request_data = "string \<rightharpoonup> string"

fun json_get :: "json \<Rightarrow> string \<Rightarrow> json option" where
  "json_get (JObj kvs) k = map_of kvs k"
| "json_get _ k = None"

definition message :: "string \<Rightarrow> json" where
  "message m = JObj [(''message'', JStr m)]"

definition error_body :: "string \<Rightarrow> json" where
  "error_body m = JObj [(''error'', JStr m)]"

definition HTTP_200_OK :: nat where "HTTP_200_OK = 200"
definition HTTP_400_BAD_REQUEST :: nat where "HTTP_400_BAD_REQUEST = 400"

text \<open>
  \<open>get_object\<close> of a viewset looks the primary key up in the viewset's queryset and
  raises Http404 when no row has it.
\<close>

definition get_object :: "('r \<Rightarrow> pk) \<Rightarrow> 'r list \<Rightarrow> pk \<Rightarrow> api_error + 'r" where
  "get_object key qs k = (case find (\<lambda>r. key r = k) qs of None \<Rightarrow> Inl Http404 | Some r \<Rightarrow> Inr r)"

text \<open>\<open>obj.save()\<close> of a row read from the table writes its columns back under its key.\<close>

definition save :: "('r \<Rightarrow> pk) \<Rightarrow> 'r \<Rightarrow> 'r list \<Rightarrow> 'r list" where
  "save key r rows = map (\<lambda>x. if key x = key r then r else x) rows"

section \<open>Visibility scoping (get\_queryset of the viewsets)\<close>

definition AppointmentViewSet_get_queryset :: "user \<Rightarrow> appointment list \<Rightarrow> appointment list" where
  "AppointmentViewSet_get_queryset u queryset =
     (if user_type u = ''senior'' then filter (\<lambda>a. appointment_senior a = user_id u) queryset
      else if user_type u = ''caretaker''
        then filter (\<lambda>a. appointment_caretaker a = Some (user_id u)) queryset
      else queryset)"

definition MedicationViewSet_get_queryset :: "user \<Rightarrow> medication list \<Rightarrow> medication list" where
  "MedicationViewSet_get_queryset u queryset =
     (if user_type u = ''senior'' then filter (\<lambda>m. medication_senior m = user_id u) queryset
      else queryset)"

definition VolunteerTaskViewSet_get_queryset :: "user \<Rightarrow> volunteer_task list \<Rightarrow> volunteer_task list" where
  "VolunteerTaskViewSet_get_queryset u queryset =
     (if user_type u = ''volunteer'' then filter (\<lambda>t. task_volunteer t = user_id u) queryset
      else if user_type u = ''senior'' then filter (\<lambda>t. task_senior t = user_id u) queryset
      else queryset)"

definition HealthRecordViewSet_get_queryset :: "user \<Rightarrow> health_record list \<Rightarrow> health_record list" where
  "HealthRecordViewSet_get_queryset u queryset =
     (if user_type u = ''senior'' then filter (\<lambda>h. health_record_senior h = user_id u) queryset
      else queryset)"

text \<open>The admin roles of \<open>User.USER_TYPE_CHOICES\<close>.\<close>

definition is_admin_role :: "string \<Rightarrow> bool" where
  "is_admin_role r = (r = ''senior_admin'' \<or> r = ''ngo_admin'')"

section \<open>Appointment actions\<close>

definition AppointmentViewSet_confirm ::
  "user \<Rightarrow> pk \<Rightarrow> appointment list \<Rightarrow> (api_error + response) \<times> appointment list" where
  "AppointmentViewSet_confirm u k tbl =
     (case get_object appointment_id (AppointmentViewSet_get_queryset u tbl) k of
        Inl e \<Rightarrow> (Inl e, tbl)
      | Inr a \<Rightarrow>
          (Inr (Response (message ''Appointment confirmed.'') HTTP_200_OK),
           save appointment_id (a\<lparr>appointment_status := ''confirmed''\<rparr>) tbl))"

section \<open>Volunteer task completion\<close>

record volunteer_profile =
  profile_id :: pk
  profile_user :: pk
  total_hours :: int
  seniors_helped :: int
  tasks_completed :: int

text \<open>
  \<open>duration.total_seconds()\<close> of a timedelta, held as an exact quotient: the rounding
  of Python's floats is not modelled.
\<close>

definition total_seconds :: "timedelta \<Rightarrow> rat" where
  "total_seconds d = of_int d / 1000000"

text \<open>
  Python's \<open>int(x)\<close>, which drops the fractional part: an integer column
  (\<open>PositiveIntegerField\<close>) stores \<open>int(value)\<close> of the attribute it is given.
\<close>

definition python_int :: "rat \<Rightarrow> int" where
  "python_int x = (if 0 \<le> x then \<lfloor>x\<rfloor> else \<lceil>x\<rceil>)"

definition data_get :: "request_data \<Rightarrow> string \<Rightarrow> string \<Rightarrow> string" where
  "data_get d k dflt = (case d k of None \<Rightarrow> dflt | Some v \<Rightarrow> v)"

definition VolunteerTaskViewSet_complete ::
  "user \<Rightarrow> pk \<Rightarrow> request_data \<Rightarrow> datetime \<Rightarrow> volunteer_task list \<times> volunteer_profile list
     \<Rightarrow> (api_error + response) \<times> volunteer_task list \<times> volunteer_profile list" where
  "VolunteerTaskViewSet_complete u k d now db =
     (case get_object task_id (VolunteerTaskViewSet_get_queryset u (fst db)) k of
        Inl e \<Rightarrow> (Inl e, db)
      | Inr t \<Rightarrow>
          (let t1 = t\<lparr>task_status := ''completed'', actual_end_time := Some now\<rparr>;
               t2 = (case actual_start_time t1 of
                       Some start \<Rightarrow> t1\<lparr>hours_logged := total_seconds (now - start) / 3600\<rparr>
                     | None \<Rightarrow> t1);
               t3 = t2\<lparr>completion_notes := data_get d ''notes'' ''''\<rparr>;
               profiles =
                 (case find (\<lambda>p. profile_user p = task_volunteer t3) (snd db) of
                    Some volunteer \<Rightarrow>
                      save profile_id
                        (volunteer\<lparr>total_hours :=
                                     python_int (of_int (total_hours volunteer) + hours_logged t3),
                                   tasks_completed := tasks_completed volunteer + 1\<rparr>)
                        (snd db)
                  | None \<Rightarrow> snd db)
           in (Inr (Response (message ''Task completed successfully.'') HTTP_200_OK),
               save task_id t3 (fst db), profiles)))"

section \<open>Emergency alerts\<close>

record emergency_alert =
  alert_id :: pk
  alert_senior :: pk
  alert_time :: datetime
  is_resolved :: bool
  resolved_at :: "datetime option"
  resolved_by :: "pk option"
  response_time :: "timedelta option"
  resolution_notes :: string

text \<open>
  \<open>resolve\<close> calls \<open>timezone.now()\<close> twice; \<open>now1\<close> and \<open>now2\<close> are what the
  first and the second call return. \<open>alert_time\<close> is set when the row is created
  (\<open>auto_now_add\<close>) and a datetime is never false, so the test \<open>if alert.alert_time\<close>
  always succeeds.
\<close>

definition EmergencyAlertViewSet_resolve ::
  "user \<Rightarrow> pk \<Rightarrow> request_data \<Rightarrow> datetime \<Rightarrow> datetime \<Rightarrow> emergency_alert list
     \<Rightarrow> (api_error + response) \<times> emergency_alert list" where
  "EmergencyAlertViewSet_resolve u k d now1 now2 tbl =
     (case get_object alert_id tbl k of
        Inl e \<Rightarrow> (Inl e, tbl)
      | Inr alert \<Rightarrow>
          (Inr (Response (message ''Alert resolved successfully.'') HTTP_200_OK),
           save alert_id
             (alert\<lparr>is_resolved := True,
                    resolved_at := Some now1,
                    resolved_by := Some (user_id u),
                    resolution_notes := data_get d ''notes'' '''',
                    response_time := Some (now2 - alert_time alert)\<rparr>)
             tbl))"

section \<open>Events\<close>

record event =
  event_id :: pk
  event_ngo :: pk
  event_title :: string
  max_participants :: nat
  current_registrations :: nat
  event_is_active :: bool

record event_registration =
  registration_id :: pk
  registration_event :: pk
  registration_user :: pk
  registration_date :: datetime
  attended :: bool

record event_tables =
  events :: "event list"
  registrations :: "event_registration list"

text \<open>The key the database gives a new row: one more than the largest in the table.\<close>

definition next_pk :: "('r \<Rightarrow> pk) \<Rightarrow> 'r list \<Rightarrow> pk" where
  "next_pk key rows = Suc (fold max (map key rows) 0)"

definition EventViewSet_register ::
  "user \<Rightarrow> pk \<Rightarrow> datetime \<Rightarrow> event_tables \<Rightarrow> (api_error + response) \<times> event_tables" where
  "EventViewSet_register u k now db =
     (case get_object event_id (events db) k of
        Inl e \<Rightarrow> (Inl e, db)
      | Inr ev \<Rightarrow>
          if list_ex (\<lambda>r. registration_event r = event_id ev \<and> registration_user r = user_id u)
               (registrations db)
          then (Inr (Response (error_body ''Already registered for this event.'')
                       HTTP_400_BAD_REQUEST), db)
          else if current_registrations ev \<ge> max_participants ev
          then (Inr (Response (error_body ''Event is full.'') HTTP_400_BAD_REQUEST), db)
          else
            (Inr (Response (message ''Successfully registered for event.'') HTTP_200_OK),
             db\<lparr>registrations := registrations db @
                    [\<lparr>registration_id = next_pk registration_id (registrations db),
                      registration_event = event_id ev,
                      registration_user = user_id u,
                      registration_date = now,
                      attended = False\<rparr>],
                events := save event_id
                    (ev\<lparr>current_registrations := current_registrations ev + 1\<rparr>) (events db)\<rparr>))"

text \<open>Register requests served one after the other: caller, event key and time of each.\<close>

fun register_all :: "(user \<times> pk \<times> datetime) list \<Rightarrow> event_tables \<Rightarrow> event_tables" where
  "register_all [] db = db"
| "register_all ((u, k, now) # reqs) db = register_all reqs (snd (EventViewSet_register u k now db))"

text \<open>
  \<open>EventSerializer\<close>: the row's key, the declared fields \<open>ngo_name\<close> (the name of
  the row's NGO, given here) and \<open>spaces_available\<close> (\<open>source='max_participants'\<close>),
  then the columns.
\<close>

definition EventSerializer_data :: "string \<Rightarrow> event \<Rightarrow> json" where
  "EventSerializer_data ngo_name ev =
     JObj [(''id'', JNum (int (event_id ev))),
           (''ngo_name'', JStr ngo_name),
           (''spaces_available'', JNum (int (max_participants ev))),
           (''title'', JStr (event_title ev)),
           (''max_participants'', JNum (int (max_participants ev))),
           (''current_registrations'', JNum (int (current_registrations ev))),
           (''is_active'', JBool (event_is_active ev)),
           (''ngo'', JNum (int (event_ngo ev)))]"

section \<open>Notifications\<close>

record notification =
  notification_id :: pk
  notification_user :: pk
  notification_title :: string
  notification_message :: string
  is_read :: bool
  read_at :: "datetime option"

text \<open>A row created with the defaults of the model: unread, no \<open>read_at\<close>.\<close>

definition Notification_create :: "pk \<Rightarrow> string \<Rightarrow> string \<Rightarrow> notification list \<Rightarrow> notification list" where
  "Notification_create uid t m tbl =
     tbl @ [\<lparr>notification_id = next_pk notification_id tbl, notification_user = uid,
              notification_title = t, notification_message = m,
              is_read = False, read_at = None\<rparr>]"

definition NotificationViewSet_get_queryset :: "user \<Rightarrow> notification list \<Rightarrow> notification list" where
  "NotificationViewSet_get_queryset u queryset = filter (\<lambda>n. notification_user n = user_id u) queryset"

definition NotificationViewSet_mark_read ::
  "user \<Rightarrow> pk \<Rightarrow> datetime \<Rightarrow> notification list \<Rightarrow> (api_error + response) \<times> notification list" where
  "NotificationViewSet_mark_read u k now tbl =
     (case get_object notification_id (NotificationViewSet_get_queryset u tbl) k of
        Inl e \<Rightarrow> (Inl e, tbl)
      | Inr n \<Rightarrow>
          (Inr (Response (message ''Notification marked as read.'') HTTP_200_OK),
           save notification_id (n\<lparr>is_read := True, read_at := Some now\<rparr>) tbl))"

text \<open>
  \<open>queryset.update(...)\<close> on a filtered queryset changes the rows of the table that
  pass the filter, and no other.
\<close>

definition queryset_update :: "('r \<Rightarrow> bool) \<Rightarrow> ('r \<Rightarrow> 'r) \<Rightarrow> 'r list \<Rightarrow> 'r list" where
  "queryset_update p f tbl = map (\<lambda>r. if p r then f r else r) tbl"

definition NotificationViewSet_mark_all_read ::
  "user \<Rightarrow> datetime \<Rightarrow> notification list \<Rightarrow> (api_error + response) \<times> notification list" where
  "NotificationViewSet_mark_all_read u now tbl =
     (Inr (Response (message ''All notifications marked as read.'') HTTP_200_OK),
      queryset_update (\<lambda>n. notification_user n = user_id u)
        (\<lambda>n. n\<lparr>is_read := True, read_at := Some now\<rparr>) tbl)"

text \<open>
  The update endpoint the viewset inherits (\<open>ModelViewSet\<close>, PATCH):
  \<open>NotificationSerializer\<close> exposes every column (\<open>fields = '__all__'\<close>, none
  read-only) and has no \<open>validate\<close>, so each column the request names is written as
  given. \<open>set_is_read\<close> and \<open>set_read_at\<close> are the values the request gives for the two
  columns, None when it does not name the column.
\<close>

definition NotificationViewSet_partial_update ::
  "user \<Rightarrow> pk \<Rightarrow> bool option \<Rightarrow> datetime option option \<Rightarrow> notification list
     \<Rightarrow> (api_error + response) \<times> notification list" where
  "NotificationViewSet_partial_update u k set_is_read set_read_at tbl =
     (case get_object notification_id (NotificationViewSet_get_queryset u tbl) k of
        Inl e \<Rightarrow> (Inl e, tbl)
      | Inr n \<Rightarrow>
          (let n1 = (case set_is_read of None \<Rightarrow> n | Some b \<Rightarrow> n\<lparr>is_read := b\<rparr>);
               n2 = (case set_read_at of None \<Rightarrow> n1 | Some t \<Rightarrow> n1\<lparr>read_at := t\<rparr>)
           in (Inr (Response
                 (JObj [(''id'', JNum (int (notification_id n2))),
                        (''user'', JNum (int (notification_user n2))),
                        (''title'', JStr (notification_title n2)),
                        (''message'', JStr (notification_message n2)),
                        (''is_read'', JBool (is_read n2)),
                        (''read_at'', (case read_at n2 of None \<Rightarrow> JNull | Some t \<Rightarrow> JNum t))])
                 HTTP_200_OK),
               save notification_id n2 tbl)))"

text \<open>The invariant of the data model: \<open>read_at\<close> is set exactly when \<open>is_read\<close>.\<close>

definition read_at_iff_is_read :: "notification \<Rightarrow> bool" where
  "read_at_iff_is_read n = ((read_at n \<noteq> None) = is_read n)"

section \<open>User registration\<close>












section \<open>Sample rows\<close>

text \<open>Concrete callers and rows, on which the operations are evaluated below.\<close>

definition a_user :: "pk \<Rightarrow> string \<Rightarrow> user" where
  "a_user uid role = \<lparr>user_id = uid, username = '''', email = '''', password_hash = '''',
     first_name = '''', last_name = '''', user_type = role, phone_number = ''''\<rparr>"

definition appt1 :: appointment where
  "appt1 = \<lparr>appointment_id = 1, appointment_senior = 10, appointment_caretaker = Some 20,
            appointment_status = ''scheduled''\<rparr>"

definition appt2 :: appointment where
  "appt2 = \<lparr>appointment_id = 2, appointment_senior = 11, appointment_caretaker = None,
            appointment_status = ''cancelled''\<rparr>"

definition med1 :: medication where
  "med1 = \<lparr>medication_id = 1, medication_senior = 10, medication_name = ''aspirin'',
           medication_is_active = True\<rparr>"

definition rec1 :: health_record where
  "rec1 = \<lparr>health_record_id = 1, health_record_senior = 10, recorded_by = Some 21\<rparr>"

definition task1 :: volunteer_task where
  "task1 = \<lparr>task_id = 1, task_senior = 10, task_volunteer = 30, task_ngo = 1,
            task_status = ''in_progress'', actual_start_time = Some 0, actual_end_time = None,
            completion_notes = '''', hours_logged = 0\<rparr>"

definition task2 :: volunteer_task where
  "task2 = \<lparr>task_id = 2, task_senior = 11, task_volunteer = 31, task_ngo = 1,
            task_status = ''assigned'', actual_start_time = None, actual_end_time = None,
            completion_notes = '''', hours_logged = 0\<rparr>"

definition event1 :: event where
  "event1 = \<lparr>event_id = 1, event_ngo = 1, event_title = ''Health camp'', max_participants = 1,
             current_registrations = 0, event_is_active = True\<rparr>"

definition tables0 :: event_tables where
  "tables0 = \<lparr>events = [event1], registrations = []\<rparr>"

definition tables1 :: event_tables where
  "tables1 = \<lparr>events = [event1\<lparr>current_registrations := 1\<rparr>],
      registrations = [\<lparr>registration_id = 1, registration_event = 1, registration_user = 10,
                        registration_date = 100, attended = False\<rparr>]\<rparr>"

definition profile1 :: volunteer_profile where
  "profile1 = \<lparr>profile_id = 1, profile_user = 30, total_hours = 0, seniors_helped = 0,
               tasks_completed = 0\<rparr>"

definition alert1 :: emergency_alert where
  "alert1 = \<lparr>alert_id = 1, alert_senior = 10, alert_time = 0, is_resolved = False,
             resolved_at = None, resolved_by = None, response_time = None,
             resolution_notes = ''''\<rparr>"

definition note1 :: notification where
  "note1 = \<lparr>notification_id = 1, notification_user = 10, notification_title = ''Pill'',
            notification_message = ''Take it'', is_read = False, read_at = None\<rparr>"

definition note2 :: notification where
  "note2 = \<lparr>notification_id = 2, notification_user = 10, notification_title = ''Visit'',
            notification_message = ''At noon'', is_read = True, read_at = Some 50\<rparr>"

definition note3 :: notification where
  "note3 = \<lparr>notification_id = 3, notification_user = 11, notification_title = ''Event'',
            notification_message = ''Tomorrow'', is_read = False, read_at = None\<rparr>"

definition event2 :: event where
  "event2 = \<lparr>event_id = 2, event_ngo = 1, event_title = ''Workshop'', max_participants = 50,
             current_registrations = 3, event_is_active = True\<rparr>"






section \<open>Properties\<close>

subsection \<open>Helper facts about lookup and write-back\<close>

lemma a_user_simps [simp]: "user_id (a_user uid role) = uid" "user_type (a_user uid role) = role"
  by (simp_all add: a_user_def)

lemmas get_queryset_defs = AppointmentViewSet_get_queryset_def MedicationViewSet_get_queryset_def
  VolunteerTaskViewSet_get_queryset_def HealthRecordViewSet_get_queryset_def

lemma get_object_Inr_key: "get_object key qs k = Inr r \<Longrightarrow> key r = k \<and> r \<in> set qs"
  by (auto simp: get_object_def find_Some_iff split: option.splits)

lemma get_object_Inl: "get_object key qs k = Inl e \<Longrightarrow> e = Http404 \<and> (\<forall>r\<in>set qs. key r \<noteq> k)"
  by (auto simp: get_object_def find_None_iff split: option.splits)

lemma length_save: "length (save key r rows) = length rows"
  by (simp add: save_def)

lemma save_nth:
  "i < length rows \<Longrightarrow> save key r rows ! i = (if key (rows ! i) = key r then r else rows ! i)"
  by (simp add: save_def)

lemma find_save_same:
  "find (\<lambda>x. key x = key r) rows = Some r0 \<Longrightarrow> find (\<lambda>x. key x = key r) (save key r rows) = Some r"
  by (induction rows) (auto simp: save_def)

lemma find_save_other:
  "k \<noteq> key r \<Longrightarrow> find (\<lambda>x. key x = k) (save key r rows) = find (\<lambda>x. key x = k) rows"
  by (induction rows) (auto simp: save_def)

lemma in_set_find:
  "r \<in> set rows \<Longrightarrow> key r = k \<Longrightarrow> \<exists>r0. find (\<lambda>x. key x = k) rows = Some r0"
  by (cases "find (\<lambda>x. key x = k) rows") (auto simp: find_None_iff)

lemma get_object_after_save:
  assumes "r \<in> set rows" and "key r' = key r"
  shows "get_object key (save key r' rows) (key r) = Inr r'"
proof -
  obtain r0 where "find (\<lambda>x. key x = key r') rows = Some r0"
    using in_set_find [OF assms(1), of key "key r'"] assms(2) by auto
  then have "find (\<lambda>x. key x = key r') (save key r' rows) = Some r'"
    by (rule find_save_same)
  then show ?thesis by (simp add: get_object_def assms(2))
qed

lemma get_queryset_subset:
  "set (AppointmentViewSet_get_queryset u tbl) \<subseteq> set tbl"
  "set (VolunteerTaskViewSet_get_queryset u tbl2) \<subseteq> set tbl2"
  "set (NotificationViewSet_get_queryset u tbl3) \<subseteq> set tbl3"
  by (auto simp: get_queryset_defs NotificationViewSet_get_queryset_def)

subsection \<open>Visibility scoping\<close>

text \<open>
  C1, as the code has it. A senior sees, of each of the four resources, the rows whose
  \<open>senior\<close> is the caller. A caretaker sees the appointments whose \<open>caretaker\<close> is
  the caller, and every medication and every health record: \<open>get_queryset\<close> of these
  two filters for seniors only. A volunteer sees the tasks whose \<open>volunteer\<close> is the
  caller. An admin role (\<open>senior_admin\<close>, \<open>ngo_admin\<close>) sees all rows of each resource.
\<close>

theorem get_queryset_by_role:
  "(user_type u = ''senior'' \<longrightarrow>
      AppointmentViewSet_get_queryset u appts = filter (\<lambda>a. appointment_senior a = user_id u) appts \<and>
      MedicationViewSet_get_queryset u meds = filter (\<lambda>m. medication_senior m = user_id u) meds \<and>
      VolunteerTaskViewSet_get_queryset u tasks = filter (\<lambda>t. task_senior t = user_id u) tasks \<and>
      HealthRecordViewSet_get_queryset u recs = filter (\<lambda>h. health_record_senior h = user_id u) recs) \<and>
   (user_type u = ''caretaker'' \<longrightarrow>
      AppointmentViewSet_get_queryset u appts =
        filter (\<lambda>a. appointment_caretaker a = Some (user_id u)) appts \<and>
      MedicationViewSet_get_queryset u meds = meds \<and>
      HealthRecordViewSet_get_queryset u recs = recs) \<and>
   (user_type u = ''volunteer'' \<longrightarrow>
      VolunteerTaskViewSet_get_queryset u tasks = filter (\<lambda>t. task_volunteer t = user_id u) tasks) \<and>
   (is_admin_role (user_type u) \<longrightarrow>
      AppointmentViewSet_get_queryset u appts = appts \<and>
      MedicationViewSet_get_queryset u meds = meds \<and>
      VolunteerTaskViewSet_get_queryset u tasks = tasks \<and>
      HealthRecordViewSet_get_queryset u recs = recs)"
  by (auto simp: get_queryset_defs is_admin_role_def)

theorem get_queryset_by_role_witness:
  "AppointmentViewSet_get_queryset (a_user 10 ''senior'') [appt1, appt2] = [appt1] \<and>
   AppointmentViewSet_get_queryset (a_user 20 ''caretaker'') [appt1, appt2] = [appt1] \<and>
   MedicationViewSet_get_queryset (a_user 20 ''caretaker'') [med1] = [med1] \<and>
   VolunteerTaskViewSet_get_queryset (a_user 31 ''volunteer'') [task1, task2] = [task2] \<and>
   HealthRecordViewSet_get_queryset (a_user 40 ''ngo_admin'') [rec1] = [rec1]"
  using
    get_queryset_by_role [of "a_user 10 ''senior''" "[appt1, appt2]" "[med1]" "[task1, task2]" "[rec1]"]
    get_queryset_by_role [of "a_user 20 ''caretaker''" "[appt1, appt2]" "[med1]" "[task1, task2]" "[rec1]"]
    get_queryset_by_role [of "a_user 31 ''volunteer''" "[appt1, appt2]" "[med1]" "[task1, task2]" "[rec1]"]
    get_queryset_by_role [of "a_user 40 ''ngo_admin''" "[appt1, appt2]" "[med1]" "[task1, task2]" "[rec1]"]
  by (simp add: is_admin_role_def appt1_def appt2_def task1_def task2_def)

text \<open>
  C1 as stated fails for a caretaker: caretaker 20 is given a medication and a health
  record of senior 10 although no column of either row refers to user 20 (the health
  record was recorded by user 21; a medication has no reference but \<open>senior\<close>).
\<close>

theorem caretaker_sees_unassigned_rows:
  "HealthRecordViewSet_get_queryset (a_user 20 ''caretaker'') [rec1] \<noteq>
     filter (\<lambda>h. recorded_by h = Some 20) [rec1] \<and>
   HealthRecordViewSet_get_queryset (a_user 20 ''caretaker'') [rec1] = [rec1] \<and>
   health_record_senior rec1 \<noteq> 20 \<and>
   MedicationViewSet_get_queryset (a_user 20 ''caretaker'') [med1] = [med1] \<and>
   medication_senior med1 \<noteq> 20"
  by (simp add: get_queryset_defs med1_def rec1_def)

subsection \<open>Appointment: confirm\<close>

text \<open>
  C7, as the code has it. For every appointment the caller can see, \<open>confirm\<close>
  succeeds and leaves the appointment with status \<open>confirmed\<close>, whatever its status
  was: the action does not read the prior status.
\<close>

theorem confirm_sets_confirmed:
  assumes "get_object appointment_id (AppointmentViewSet_get_queryset u tbl) k = Inr a"
  shows "AppointmentViewSet_confirm u k tbl =
           (Inr (Response (message ''Appointment confirmed.'') HTTP_200_OK),
            save appointment_id (a\<lparr>appointment_status := ''confirmed''\<rparr>) tbl) \<and>
         get_object appointment_id (snd (AppointmentViewSet_confirm u k tbl)) k =
           Inr (a\<lparr>appointment_status := ''confirmed''\<rparr>)"
proof -
  have a: "appointment_id a = k" "a \<in> set tbl"
    using get_object_Inr_key [OF assms] get_queryset_subset(1) by auto
  have "get_object appointment_id (save appointment_id (a\<lparr>appointment_status := ''confirmed''\<rparr>) tbl)
          (appointment_id a) = Inr (a\<lparr>appointment_status := ''confirmed''\<rparr>)"
    by (rule get_object_after_save [OF a(2)]) simp
  then show ?thesis by (simp add: AppointmentViewSet_confirm_def assms a(1))
qed

theorem confirm_sets_confirmed_witness:
  "AppointmentViewSet_confirm (a_user 10 ''senior'') 1 [appt1, appt2] =
     (Inr (Response (message ''Appointment confirmed.'') HTTP_200_OK),
      [appt1\<lparr>appointment_status := ''confirmed''\<rparr>, appt2])"
  using confirm_sets_confirmed [of "a_user 10 ''senior''" "[appt1, appt2]" 1 appt1]
  by (simp add: get_queryset_defs get_object_def save_def appt1_def appt2_def)

text \<open>
  C7 as stated fails: \<open>confirm\<close> moves a cancelled appointment to \<open>confirmed\<close>.
\<close>

theorem confirm_moves_cancelled_counterexample:
  "appointment_status appt2 = ''cancelled'' \<and>
   AppointmentViewSet_confirm (a_user 40 ''senior_admin'') 2 [appt1, appt2] =
     (Inr (Response (message ''Appointment confirmed.'') HTTP_200_OK),
      [appt1, appt2\<lparr>appointment_status := ''confirmed''\<rparr>])"
  by (simp add: AppointmentViewSet_confirm_def get_queryset_defs get_object_def save_def
      appt1_def appt2_def)

subsection \<open>Event registration\<close>

lemma list_ex_registration:
  "list_ex (\<lambda>r. registration_event r = k \<and> registration_user r = uid) rs =
     (\<exists>r\<in>set rs. registration_event r = k \<and> registration_user r = uid)"
  by (simp add: list_ex_iff)

text \<open>
  C2. For an event \<open>ev\<close> of the table and a caller \<open>u\<close>, \<open>register\<close>
  answers 400 with \<open>Already registered for this event.\<close> (the spec's Conflict) and
  changes nothing when a registration of the caller for the event exists; else it answers
  400 with \<open>Event is full.\<close> (the spec's CapacityExceeded) and changes nothing when
  \<open>current_registrations \<ge> max_participants\<close>; else it succeeds, appends one
  registration row for the event and the caller, after which exactly one such row
  exists, and writes the event back with \<open>current_registrations\<close> one higher. A second
  \<open>register\<close> of the same caller on the same event then answers Conflict.
\<close>

theorem register_outcomes:
  assumes ev: "get_object event_id (events db) k = Inr ev"
  shows
    "((\<exists>r\<in>set (registrations db). registration_event r = k \<and> registration_user r = user_id u) \<longrightarrow>
        EventViewSet_register u k now db =
          (Inr (Response (error_body ''Already registered for this event.'') HTTP_400_BAD_REQUEST), db)) \<and>
     (\<not> (\<exists>r\<in>set (registrations db). registration_event r = k \<and> registration_user r = user_id u) \<and>
      current_registrations ev \<ge> max_participants ev \<longrightarrow>
        EventViewSet_register u k now db =
          (Inr (Response (error_body ''Event is full.'') HTTP_400_BAD_REQUEST), db)) \<and>
     (\<not> (\<exists>r\<in>set (registrations db). registration_event r = k \<and> registration_user r = user_id u) \<and>
      current_registrations ev < max_participants ev \<longrightarrow>
        (\<exists>new db'.
           EventViewSet_register u k now db =
             (Inr (Response (message ''Successfully registered for event.'') HTTP_200_OK), db') \<and>
           registrations db' = registrations db @ [new] \<and>
           registration_event new = k \<and> registration_user new = user_id u \<and>
           length (filter (\<lambda>r. registration_event r = k \<and> registration_user r = user_id u)
                     (registrations db')) = 1 \<and>
           get_object event_id (events db') k =
             Inr (ev\<lparr>current_registrations := current_registrations ev + 1\<rparr>) \<and>
           (\<forall>now'. EventViewSet_register u k now' db' =
             (Inr (Response (error_body ''Already registered for this event.'') HTTP_400_BAD_REQUEST),
              db'))))"
proof -
  have k: "event_id ev = k" and mem: "ev \<in> set (events db)"
    using get_object_Inr_key [OF ev] by auto
  let ?ev' = "ev\<lparr>current_registrations := current_registrations ev + 1\<rparr>"
  have after: "get_object event_id (save event_id ?ev' (events db)) k = Inr ?ev'"
    using get_object_after_save [OF mem, of event_id ?ev'] k by simp
  show ?thesis
  proof (intro conjI impI)
    assume "\<exists>r\<in>set (registrations db). registration_event r = k \<and> registration_user r = user_id u"
    then show "EventViewSet_register u k now db =
          (Inr (Response (error_body ''Already registered for this event.'') HTTP_400_BAD_REQUEST), db)"
      by (simp add: EventViewSet_register_def ev k list_ex_registration)
  next
    assume "\<not> (\<exists>r\<in>set (registrations db). registration_event r = k \<and> registration_user r = user_id u) \<and>
      current_registrations ev \<ge> max_participants ev"
    then show "EventViewSet_register u k now db =
          (Inr (Response (error_body ''Event is full.'') HTTP_400_BAD_REQUEST), db)"
      by (auto simp: EventViewSet_register_def ev k list_ex_registration)
  next
    assume a: "\<not> (\<exists>r\<in>set (registrations db). registration_event r = k \<and> registration_user r = user_id u) \<and>
      current_registrations ev < max_participants ev"
    let ?new = "\<lparr>registration_id = next_pk registration_id (registrations db),
                  registration_event = k, registration_user = user_id u,
                  registration_date = now, attended = False\<rparr>"
    let ?db' = "db\<lparr>registrations := registrations db @ [?new],
                   events := save event_id ?ev' (events db)\<rparr>"
    have none: "filter (\<lambda>r. registration_event r = k \<and> registration_user r = user_id u)
                  (registrations db) = []"
      using a by (auto simp: filter_empty_conv)
    have 1: "EventViewSet_register u k now db =
             (Inr (Response (message ''Successfully registered for event.'') HTTP_200_OK), ?db')"
      using a by (auto simp: EventViewSet_register_def ev k list_ex_registration)
    have 2: "\<forall>now'. EventViewSet_register u k now' ?db' =
             (Inr (Response (error_body ''Already registered for this event.'') HTTP_400_BAD_REQUEST), ?db')"
      using after k by (simp add: EventViewSet_register_def list_ex_registration)
    show "\<exists>new db'.
           EventViewSet_register u k now db =
             (Inr (Response (message ''Successfully registered for event.'') HTTP_200_OK), db') \<and>
           registrations db' = registrations db @ [new] \<and>
           registration_event new = k \<and> registration_user new = user_id u \<and>
           length (filter (\<lambda>r. registration_event r = k \<and> registration_user r = user_id u)
                     (registrations db')) = 1 \<and>
           get_object event_id (events db') k =
             Inr (ev\<lparr>current_registrations := current_registrations ev + 1\<rparr>) \<and>
           (\<forall>now'. EventViewSet_register u k now' db' =
             (Inr (Response (error_body ''Already registered for this event.'') HTTP_400_BAD_REQUEST),
              db'))"
      apply (rule exI [of _ ?new])
      apply (rule exI [of _ ?db'])
      using 1 2 after none by simp
  qed
qed

lemma get_event1: "get_object event_id (events tables0) 1 = Inr event1"
  by (simp add: get_object_def tables0_def event1_def)

lemma get_event1': "get_object event_id (events tables1) 1 = Inr (event1\<lparr>current_registrations := 1\<rparr>)"
  by (simp add: get_object_def tables1_def event1_def)

theorem register_outcomes_witness:
  "EventViewSet_register (a_user 10 ''senior'') 1 100 tables0 =
     (Inr (Response (message ''Successfully registered for event.'') HTTP_200_OK), tables1) \<and>
   EventViewSet_register (a_user 10 ''senior'') 1 200 tables1 =
     (Inr (Response (error_body ''Already registered for this event.'') HTTP_400_BAD_REQUEST), tables1) \<and>
   EventViewSet_register (a_user 11 ''senior'') 1 300 tables1 =
     (Inr (Response (error_body ''Event is full.'') HTTP_400_BAD_REQUEST), tables1)"
  using register_outcomes [OF get_event1, of "a_user 10 ''senior''" 100]
    register_outcomes [OF get_event1', of "a_user 10 ''senior''" 200]
    register_outcomes [OF get_event1', of "a_user 11 ''senior''" 300]
  by (simp add: tables0_def tables1_def event1_def EventViewSet_register_def get_object_def
        save_def next_pk_def)


subsection \<open>Event capacity\<close>

lemma register_effect_on_events:
  assumes "get_object event_id (events db) j = Inr ev"
  shows "snd (EventViewSet_register u j now db) = db \<or>
         (current_registrations ev < max_participants ev \<and>
          events (snd (EventViewSet_register u j now db)) =
            save event_id (ev\<lparr>current_registrations := current_registrations ev + 1\<rparr>) (events db))"
  by (simp add: EventViewSet_register_def assms)

lemma register_keeps_capacity:
  assumes "get_object event_id (events db) k = Inr e"
    and "current_registrations e \<le> max_participants e"
  shows "\<exists>e'. get_object event_id (events (snd (EventViewSet_register u j now db))) k = Inr e' \<and>
           current_registrations e' \<le> max_participants e'"
proof (cases "get_object event_id (events db) j")
  case (Inl err)
  then show ?thesis using assms by (simp add: EventViewSet_register_def)
next
  case (Inr ev)
  let ?ev' = "ev\<lparr>current_registrations := current_registrations ev + 1\<rparr>"
  have j: "event_id ev = j" and mem: "ev \<in> set (events db)"
    using get_object_Inr_key [OF Inr] by auto
  from register_effect_on_events [OF Inr, of u now]
  show ?thesis
  proof
    assume "snd (EventViewSet_register u j now db) = db"
    then show ?thesis using assms by simp
  next
    assume added: "current_registrations ev < max_participants ev \<and>
          events (snd (EventViewSet_register u j now db)) = save event_id ?ev' (events db)"
    show ?thesis
    proof (cases "j = k")
      case True
      have "get_object event_id (save event_id ?ev' (events db)) k = Inr ?ev'"
        using get_object_after_save [OF mem, of event_id ?ev'] j True by simp
      then show ?thesis using added by simp
    next
      case False
      then have "get_object event_id (save event_id ?ev' (events db)) k =
                 get_object event_id (events db) k"
        using find_save_other [of k event_id ?ev' "events db"] j by (simp add: get_object_def)
      then show ?thesis using added assms by simp
    qed
  qed
qed

text \<open>
  C3. \<open>current_registrations \<le> max_participants\<close> is an invariant of every event
  under \<open>register\<close>: when it holds of an event before a sequence of register requests
  served one after the other (by any callers, on any events, successful or failed), it
  holds of that event after the sequence; a single request is the sequence of length one.
\<close>

theorem register_all_capacity_invariant:
  assumes "get_object event_id (events db) k = Inr e"
    and "current_registrations e \<le> max_participants e"
  shows "\<exists>e'. get_object event_id (events (register_all reqs db)) k = Inr e' \<and>
           current_registrations e' \<le> max_participants e'"
  using assms
proof (induction reqs arbitrary: db e)
  case Nil
  then show ?case by simp
next
  case (Cons req reqs)
  obtain u j now where req: "req = (u, j, now)" by (cases req)
  obtain e1 where "get_object event_id (events (snd (EventViewSet_register u j now db))) k = Inr e1"
    and "current_registrations e1 \<le> max_participants e1"
    using register_keeps_capacity [OF Cons.prems] by blast
  then show ?case using Cons.IH req by simp
qed

theorem register_all_capacity_invariant_witness:
  "get_object event_id
     (events (register_all [(a_user 10 ''senior'', 1, 100), (a_user 10 ''senior'', 1, 200),
                            (a_user 11 ''senior'', 1, 300)] tables0)) 1 =
     Inr (event1\<lparr>current_registrations := 1\<rparr>) \<and>
   current_registrations (event1\<lparr>current_registrations := 1\<rparr>) \<le>
     max_participants (event1\<lparr>current_registrations := 1\<rparr>)"
  using register_all_capacity_invariant [OF get_event1, of
      "[(a_user 10 ''senior'', 1, 100), (a_user 10 ''senior'', 1, 200), (a_user 11 ''senior'', 1, 300)]"]
  by (simp add: tables0_def event1_def EventViewSet_register_def get_object_def
        save_def next_pk_def)

subsection \<open>Volunteer task: complete\<close>

lemma complete_effect:
  assumes "get_object task_id (VolunteerTaskViewSet_get_queryset u tasks) k = Inr t"
    and "actual_start_time t = Some start"
    and "find (\<lambda>p. profile_user p = task_volunteer t) profiles = Some p"
  shows "VolunteerTaskViewSet_complete u k d now (tasks, profiles) =
     (Inr (Response (message ''Task completed successfully.'') HTTP_200_OK),
      save task_id
        (t\<lparr>task_status := ''completed'', actual_end_time := Some now,
           hours_logged := total_seconds (now - start) / 3600,
           completion_notes := data_get d ''notes'' ''''\<rparr>) tasks,
      save profile_id
        (p\<lparr>total_hours := python_int (of_int (total_hours p) + total_seconds (now - start) / 3600),
           tasks_completed := tasks_completed p + 1\<rparr>) profiles)"
  using assms by (simp add: VolunteerTaskViewSet_complete_def Let_def)

text \<open>
  C4, evaluated where the code departs from it. A volunteer with \<open>total_hours = 0\<close>
  completes a task started 5400 seconds earlier. The task gets status \<open>completed\<close>,
  the end time and \<open>hours_logged = 3/2\<close>, and \<open>tasks_completed\<close> goes up by one, as
  claimed; but \<open>total_hours\<close> is an integer column, so the sum \<open>0 + 3/2\<close> is stored as
  \<open>1\<close>: the increment is not \<open>hours_logged\<close>.
\<close>

theorem complete_truncates_total_hours:
  "VolunteerTaskViewSet_complete (a_user 30 ''volunteer'') 1 Map.empty 5400000000
       ([task1, task2], [profile1]) =
     (Inr (Response (message ''Task completed successfully.'') HTTP_200_OK),
      [task1\<lparr>task_status := ''completed'', actual_end_time := Some 5400000000,
              hours_logged := 3 / 2\<rparr>, task2],
      [profile1\<lparr>total_hours := 1, tasks_completed := 1\<rparr>]) \<and>
   of_int (total_hours profile1) + (3 / 2 :: rat) \<noteq> of_int 1"
  by (simp add: VolunteerTaskViewSet_complete_def get_queryset_defs get_object_def save_def
        task1_def task2_def profile1_def total_seconds_def python_int_def data_get_def
        floor_eq_iff Let_def)

subsection \<open>Emergency alert: resolve\<close>

lemma resolve_stamps:
  assumes "get_object alert_id tbl k = Inr alert"
  shows "get_object alert_id (snd (EmergencyAlertViewSet_resolve u k d now1 now2 tbl)) k =
           Inr (alert\<lparr>is_resolved := True, resolved_at := Some now1,
                       resolved_by := Some (user_id u),
                       resolution_notes := data_get d ''notes'' '''',
                       response_time := Some (now2 - alert_time alert)\<rparr>)"
proof -
  have a: "alert_id alert = k" "alert \<in> set tbl"
    using get_object_Inr_key [OF assms] by auto
  let ?a = "alert\<lparr>is_resolved := True, resolved_at := Some now1,
                       resolved_by := Some (user_id u),
                       resolution_notes := data_get d ''notes'' '''',
                       response_time := Some (now2 - alert_time alert)\<rparr>"
  have "get_object alert_id (save alert_id ?a tbl) (alert_id alert) = Inr ?a"
    by (rule get_object_after_save [OF a(2)]) simp
  then show ?thesis by (simp add: EmergencyAlertViewSet_resolve_def assms a(1))
qed

text \<open>
  C5, evaluated where the code departs from it. An alert raised at time 0 is resolved;
  the first reading of the clock is 100 and the second, one microsecond later, 101.
  \<open>resolved_at\<close> is the first reading and \<open>response_time\<close> is taken from the second:
  it is 101, not \<open>resolved_at - alert_time = 100\<close>.
\<close>

theorem resolve_response_time_from_second_clock_reading:
  "EmergencyAlertViewSet_resolve (a_user 20 ''caretaker'') 1 Map.empty 100 101 [alert1] =
     (Inr (Response (message ''Alert resolved successfully.'') HTTP_200_OK),
      [alert1\<lparr>is_resolved := True, resolved_at := Some 100, resolved_by := Some 20,
               response_time := Some 101\<rparr>]) \<and>
   (100 :: int) - alert_time alert1 \<noteq> 101"
  by (simp add: EmergencyAlertViewSet_resolve_def get_object_def save_def alert1_def data_get_def)

subsection \<open>Notifications\<close>

text \<open>
  C6. \<open>mark_all_read\<close> of caller \<open>u\<close> at time \<open>now\<close> keeps the number of rows; a row
  of \<open>u\<close> that was unread becomes the same row with \<open>is_read = True\<close> and
  \<open>read_at = now\<close>; a row of any other user is left as it was, in every column.
\<close>

theorem mark_all_read_frame:
  assumes "i < length tbl"
  shows "fst (NotificationViewSet_mark_all_read u now tbl) =
           Inr (Response (message ''All notifications marked as read.'') HTTP_200_OK) \<and>
         length (snd (NotificationViewSet_mark_all_read u now tbl)) = length tbl \<and>
         (notification_user (tbl ! i) = user_id u \<and> \<not> is_read (tbl ! i) \<longrightarrow>
            snd (NotificationViewSet_mark_all_read u now tbl) ! i =
              (tbl ! i)\<lparr>is_read := True, read_at := Some now\<rparr>) \<and>
         (notification_user (tbl ! i) \<noteq> user_id u \<longrightarrow>
            snd (NotificationViewSet_mark_all_read u now tbl) ! i = tbl ! i)"
  using assms by (simp add: NotificationViewSet_mark_all_read_def queryset_update_def)

theorem mark_all_read_frame_witness:
  "snd (NotificationViewSet_mark_all_read (a_user 10 ''senior'') 70 [note1, note2, note3]) ! 0 =
     note1\<lparr>is_read := True, read_at := Some 70\<rparr> \<and>
   snd (NotificationViewSet_mark_all_read (a_user 10 ''senior'') 70 [note1, note2, note3]) ! 2 =
     note3"
  using mark_all_read_frame [of 0 "[note1, note2, note3]" "a_user 10 ''senior''" 70]
    mark_all_read_frame [of 2 "[note1, note2, note3]" "a_user 10 ''senior''" 70]
  by (simp add: note1_def note3_def)

lemma save_preserves:
  "\<forall>x\<in>set rows. P x \<Longrightarrow> P r \<Longrightarrow> \<forall>x\<in>set (save key r rows). P x"
  by (auto simp: save_def)

text \<open>
  C9, as the code has it. When \<open>read_at\<close> is set exactly for the read rows of the
  table, this is still so after a row is created with the defaults, after \<open>mark_read\<close>
  and after \<open>mark_all_read\<close>. The update endpoint is left out: it writes \<open>is_read\<close>
  and \<open>read_at\<close> independently.
\<close>

theorem read_at_invariant_kept:
  assumes "list_all read_at_iff_is_read tbl"
  shows "list_all read_at_iff_is_read (Notification_create uid t m tbl) \<and>
         list_all read_at_iff_is_read (snd (NotificationViewSet_mark_read u k now tbl)) \<and>
         list_all read_at_iff_is_read (snd (NotificationViewSet_mark_all_read u now tbl))"
proof -
  have all: "\<forall>n\<in>set tbl. read_at_iff_is_read n"
    using assms by (simp add: list_all_iff)
  have 1: "list_all read_at_iff_is_read (Notification_create uid t m tbl)"
    using assms by (simp add: Notification_create_def read_at_iff_is_read_def)
  have 2: "list_all read_at_iff_is_read (snd (NotificationViewSet_mark_read u k now tbl))"
  proof (cases "get_object notification_id (NotificationViewSet_get_queryset u tbl) k")
    case (Inl e)
    then show ?thesis using assms by (simp add: NotificationViewSet_mark_read_def)
  next
    case (Inr n)
    have "\<forall>x\<in>set (save notification_id (n\<lparr>is_read := True, read_at := Some now\<rparr>) tbl).
            read_at_iff_is_read x"
      by (rule save_preserves [OF all]) (simp add: read_at_iff_is_read_def)
    then show ?thesis by (simp add: NotificationViewSet_mark_read_def Inr list_all_iff)
  qed
  have 3: "list_all read_at_iff_is_read (snd (NotificationViewSet_mark_all_read u now tbl))"
    using all
    by (auto simp: NotificationViewSet_mark_all_read_def queryset_update_def list_all_iff
          read_at_iff_is_read_def)
  from 1 2 3 show ?thesis by simp
qed

theorem read_at_invariant_kept_witness:
  "list_all read_at_iff_is_read [note1, note2, note3] \<and>
   list_all read_at_iff_is_read (Notification_create 12 ''Hello'' ''Welcome'' [note1, note2, note3]) \<and>
   list_all read_at_iff_is_read
     (snd (NotificationViewSet_mark_read (a_user 10 ''senior'') 1 70 [note1, note2, note3])) \<and>
   list_all read_at_iff_is_read
     (snd (NotificationViewSet_mark_all_read (a_user 10 ''senior'') 70 [note1, note2, note3]))"
proof -
  have h: "list_all read_at_iff_is_read [note1, note2, note3]"
    by (simp add: read_at_iff_is_read_def note1_def note2_def note3_def)
  show ?thesis
    using h read_at_invariant_kept [OF h, of 12 "''Hello''" "''Welcome''" "a_user 10 ''senior''" 1 70]
    by simp
qed

text \<open>
  C9 as stated fails for the update endpoint: a PATCH that names \<open>is_read\<close> only turns
  an unread notification into one that is read and has no \<open>read_at\<close>.
\<close>

theorem partial_update_breaks_read_at_invariant:
  "list_all read_at_iff_is_read [note1, note2, note3] \<and>
   snd (NotificationViewSet_partial_update (a_user 10 ''senior'') 1 (Some True) None
          [note1, note2, note3]) = [note1\<lparr>is_read := True\<rparr>, note2, note3] \<and>
   \<not> list_all read_at_iff_is_read
       (snd (NotificationViewSet_partial_update (a_user 10 ''senior'') 1 (Some True) None
          [note1, note2, note3]))"
  by (simp add: NotificationViewSet_partial_update_def NotificationViewSet_get_queryset_def
        get_object_def save_def read_at_iff_is_read_def note1_def note2_def note3_def Let_def)

subsection \<open>User registration\<close>




subsection \<open>Event serialization\<close>

text \<open>
  C10. The \<open>spaces_available\<close> entry of a serialized event is \<open>max_participants\<close>,
  whatever \<open>current_registrations\<close> is; once there is a registration it differs from
  the remaining capacity \<open>max_participants - current_registrations\<close>.
\<close>

theorem spaces_available_is_max_participants:
  "json_get (EventSerializer_data ngo_name ev) ''spaces_available'' =
     Some (JNum (int (max_participants ev))) \<and>
   (0 < current_registrations ev \<longrightarrow>
      json_get (EventSerializer_data ngo_name ev) ''spaces_available'' \<noteq>
        Some (JNum (int (max_participants ev) - int (current_registrations ev))))"
  by (simp add: EventSerializer_data_def)

theorem spaces_available_is_max_participants_witness:
  "(0::nat) < current_registrations event2 \<and>
   json_get (EventSerializer_data ''Helping Hands'' event2) ''spaces_available'' = Some (JNum 50) \<and>
   json_get (EventSerializer_data ''Helping Hands'' event2) ''spaces_available'' \<noteq> Some (JNum 47)"
  using spaces_available_is_max_participants [of "''Helping Hands''" event2]
  by (simp add: event2_def)

end
